theory Spec2Isabelle
  imports Complex_Main
begin

section \<open>Conrad Coach v3: the analytic core\<close>

text \<open>
  A shallow embedding of the pure analytic functions of
  \<^verbatim>\<open>attached_assets/conrad_coach_v3_1770721379303.py\<close>.

  Numeric conventions. A Python \<^verbatim>\<open>int\<close> is an \<open>int\<close>. A Python \<^verbatim>\<open>float\<close> is a
  \<open>real\<close>: arithmetic is exact, so the rounding error of IEEE doubles is not part of
  this model, and the decimal literals of the source (\<^verbatim>\<open>0.10\<close>, \<^verbatim>\<open>3.87\<close>) stand for the
  decimal fractions they spell. A missing value (\<^verbatim>\<open>None\<close>, or pandas' \<^verbatim>\<open>NaN\<close>/\<^verbatim>\<open>NA\<close> in a
  column) is \<open>None\<close> of an option type.
\<close>

subsection \<open>Python built-ins\<close>

text \<open>\<^verbatim>\<open>round(x)\<close> of Python 3 on a float, without digits: the nearest integer, a tie
  going to the even neighbour.\<close>

definition py_round :: "real \<Rightarrow> int" where
  "py_round x =
     (let f = \<lfloor>x\<rfloor>; d = x - of_int f
      in if d < 1 / 2 then f
         else if 1 / 2 < d then f + 1
         else if even f then f else f + 1)"

text \<open>\<^verbatim>\<open>int(x)\<close> on a float truncates towards zero.\<close>

definition py_int :: "real \<Rightarrow> int" where
  "py_int x = (if 0 \<le> x then \<lfloor>x\<rfloor> else \<lceil>x\<rceil>)"

text \<open>\<^verbatim>\<open>s.endswith(suffix)\<close>.\<close>

definition endswith :: "string \<Rightarrow> string \<Rightarrow> bool" where
  "endswith s suffix =
     (length suffix \<le> length s \<and> drop (length s - length suffix) s = suffix)"

text \<open>The only exception the modelled functions raise is the \<^verbatim>\<open>KeyError\<close> of a
  dictionary lookup; it carries the missing key.\<close>

datatype py_error = KeyError string

subsection \<open>The locked baseline plan and the calorie densities\<close>

record cardio_fuel_cfg =
  threshold_min :: int
  add_carbs_g :: int
  preferred_source :: string

record baseline =
  calories :: real
  protein_g :: real
  carbs_g :: real
  fat_g :: real
  items_g :: "(string \<times> int) list"
  adjust_priority :: "string list"
  cardio_fuel :: cardio_fuel_cfg

definition BASELINE :: baseline where
  "BASELINE =
     \<lparr> calories = 2695.2, protein_g = 173.9, carbs_g = 330.9, fat_g = 54.4,
       items_g = [(''oats_g'', 244), (''dextrin_g'', 120), (''whey_g'', 90), (''mct_g'', 30),
                  (''flax_g'', 60), (''yogurt_cups'', 1), (''eggs'', 2), (''bananas'', 2)],
       adjust_priority = [''mct_g'', ''dextrin_g'', ''oats_g'', ''bananas'', ''eggs'',
                          ''flax_g'', ''whey_g'', ''yogurt_cups''],
       cardio_fuel = \<lparr> threshold_min = 45, add_carbs_g = 25,
                       preferred_source = ''dextrin_g'' \<rparr> \<rparr>"

text \<open>\<^verbatim>\<open>KCAL_PER_UNIT\<close> is a module-level dictionary; \<^verbatim>\<open>KCAL_PER_UNIT[key]\<close> raises
  \<^verbatim>\<open>KeyError\<close> on a key outside it.\<close>

definition KCAL_PER_UNIT :: "string \<rightharpoonup> real" where
  "KCAL_PER_UNIT =
     map_of [(''oats_g'', 4.0), (''dextrin_g'', 3.87), (''whey_g'', 3.76), (''mct_g'', 7.0),
             (''flax_g'', 3.24), (''bananas'', 104.0), (''eggs'', 77.5),
             (''yogurt_cups'', 149.5)]"

subsection \<open>Body-fat average of three readings\<close>

definition avg3 :: "real option \<Rightarrow> real option \<Rightarrow> real option \<Rightarrow> real option" where
  "avg3 a b c =
     (let vals = List.map_filter id [a, b, c]
      in if length vals \<noteq> 3 then None else Some (sum_list vals / 3.0))"

subsection \<open>Weekly delta to calorie adjustment\<close>

definition suggest_calorie_adjustment :: "real \<Rightarrow> int" where
  "suggest_calorie_adjustment wk_gain_lb =
     (if wk_gain_lb < 0.10 then 100
      else if 0.10 \<le> wk_gain_lb \<and> wk_gain_lb < 0.25 then 75
      else if 0.25 \<le> wk_gain_lb \<and> wk_gain_lb \<le> 0.50 then 0
      else if 0.50 < wk_gain_lb \<and> wk_gain_lb \<le> 0.75 then - 50
      else - 100)"

subsection \<open>Calorie delta to ingredient plan\<close>

definition grams_for_kcal :: "string \<Rightarrow> int \<Rightarrow> py_error + int" where
  "grams_for_kcal item_key kcal =
     (case KCAL_PER_UNIT item_key of
        None \<Rightarrow> Inl (KeyError item_key)
      | Some k \<Rightarrow>
          if item_key \<in> set [''bananas'', ''eggs'', ''yogurt_cups'']
          then Inr (py_round (of_int kcal / k))
          else
            let grams = py_round (of_int kcal / k)
            in if item_key \<in> set [''mct_g'', ''dextrin_g'']
               then Inr (py_round (of_int grams / 5) * 5)
               else Inr (py_round (of_int grams / 10) * 10))"

text \<open>A plan entry is the tuple \<^verbatim>\<open>(item, delta, achieved)\<close>.\<close>

type_synonym plan_entry = "string \<times> int \<times> int"

text \<open>The \<^verbatim>\<open>for item in baseline["adjust_priority"]\<close> loop of \<^verbatim>\<open>propose_adjustment\<close>, on
  its two mutable locals \<^verbatim>\<open>(remaining, plan)\<close>. \<^verbatim>\<open>break\<close> returns the state as it is,
  \<^verbatim>\<open>continue\<close> goes on with the state unchanged, and an exception leaves the loop with
  \<open>Inl\<close>.\<close>

fun propose_loop :: "string list \<Rightarrow> int \<times> plan_entry list \<Rightarrow> py_error + int \<times> plan_entry list" where
  "propose_loop [] (remaining, plan) = Inr (remaining, plan)"
| "propose_loop (item # items) (remaining, plan) =
     (if \<bar>remaining\<bar> \<le> 25 then Inr (remaining, plan)
      else if item \<in> set [''whey_g'', ''yogurt_cups''] \<and> \<bar>remaining\<bar> \<le> 150
      then propose_loop items (remaining, plan)
      else
        (case grams_for_kcal item remaining of
           Inl err \<Rightarrow> Inl err
         | Inr delta0 \<Rightarrow>
             let delta =
                   (if delta0 = 0
                    then (let d = (if endswith item ''_g'' then 10 else 1)
                          in if remaining < 0 then d * (- 1) else d)
                    else delta0)
             in (case KCAL_PER_UNIT item of
                   None \<Rightarrow> Inl (KeyError item)
                 | Some k \<Rightarrow>
                     let achieved = py_round (of_int delta * k)
                     in propose_loop items
                          (remaining - achieved, plan @ [(item, delta, achieved)]))))"

definition propose_adjustment :: "int \<Rightarrow> baseline \<Rightarrow> py_error + plan_entry list" where
  "propose_adjustment kcal_change bl =
     (if kcal_change = 0 then Inr []
      else
        (case propose_loop (adjust_priority bl) (kcal_change, []) of
           Inl err \<Rightarrow> Inl err
         | Inr (remaining, plan) \<Rightarrow> Inr plan))"

text \<open>The value of \<^verbatim>\<open>remaining\<close> when entry number \<open>i\<close> of a returned plan was
  computed: \<^verbatim>\<open>remaining\<close> starts at the kcal change and changes only by
  \<^verbatim>\<open>remaining -= achieved\<close>, once for each entry appended.\<close>

definition remaining_before :: "int \<Rightarrow> plan_entry list \<Rightarrow> nat \<Rightarrow> int" where
  "remaining_before kcal_change plan i =
     kcal_change - sum_list (map (\<lambda>(item, delta, achieved). achieved) (take i plan))"

subsection \<open>Cardio fuel guardrail\<close>

text \<open>The advisory is an f-string; it is modelled by its template and the values that
  fill its holes. \<open>Note_oats cm threshold add oats_g\<close> is
  \<^verbatim>\<open>"Cardio {cm}min > {threshold} -> add ~{add}g carbs: +{oats_g}g oats (or +{add}g dextrin)."\<close>
  and \<open>Note_dextrin cm threshold add\<close> is
  \<^verbatim>\<open>"Cardio {cm}min > {threshold} -> add +{add}g carbs: +{add}g dextrin."\<close>.\<close>

datatype cardio_note = Note_oats int int int int | Note_dextrin int int int

text \<open>The argument is a cell of the \<^verbatim>\<open>cardio_min\<close> column, a float once pandas has read
  it; \<open>None\<close> is a cell that \<^verbatim>\<open>pd.isna\<close> accepts. \<^verbatim>\<open>int(cardio_min)\<close> cannot fail on a
  real number, so the \<^verbatim>\<open>except\<close> branch has no counterpart. The baseline holds
  integers, on which \<^verbatim>\<open>int\<close> is the identity.\<close>

definition cardio_fuel_note :: "real option \<Rightarrow> baseline \<Rightarrow> cardio_note option" where
  "cardio_fuel_note cardio_min bl =
     (case cardio_min of
        None \<Rightarrow> None
      | Some x \<Rightarrow>
          let cf = cardio_fuel bl; cm = py_int x
          in if cm > threshold_min cf
             then
               (let add = add_carbs_g cf; src = preferred_source cf
                in if src = ''oats_g''
                   then
                     (let oats_g = py_round ((of_int add / 0.67) / 10) * 10
                      in Some (Note_oats cm (threshold_min cf) add oats_g))
                   else Some (Note_dextrin cm (threshold_min cf) add))
             else None)"

subsection \<open>Daily entries and the data frame\<close>

text \<open>The fields of \<^verbatim>\<open>DailyEntry\<close> that the analytics read. The sleep, water, steps,
  lift, notes and evening fields, and the three raw readings behind each body-fat
  average, are read by no function modelled here.\<close>

record daily_entry =
  day :: string
  morning_weight_lb :: real
  waist_in :: "real option"
  bf_morning_pct :: "real option"
  cardio_min :: "int option"
  deload_week :: "bool option"
  performance_note :: "string option"
  adherence_0to1 :: "real option"

text \<open>The constructor \<^verbatim>\<open>DailyEntry(day, morning_weight_lb)\<close> with the defaults of the
  dataclass: every optional field missing, adherence 1.0.\<close>

definition DailyEntry :: "string \<Rightarrow> real \<Rightarrow> daily_entry" where
  "DailyEntry d w =
     \<lparr> day = d, morning_weight_lb = w, waist_in = None, bf_morning_pct = None,
       cardio_min = None, deload_week = None, performance_note = None,
       adherence_0to1 = Some 1.0 \<rparr>"

text \<open>A row of the frame that \<^verbatim>\<open>df_entries\<close> builds: the entry and its two derived
  columns. A frame is the list of its rows in index order. A column that the frame
  lacks behaves in every modelled function as a column of missing values does, so
  every column is taken to exist.\<close>

record df_row = daily_entry +
  lean_mass_lb :: "real option"
  fat_mass_lb :: "real option"

text \<open>\<^verbatim>\<open>log_entry\<close> stores the entries sorted by day, so the \<^verbatim>\<open>sort_values("day")\<close> of
  \<^verbatim>\<open>df_entries\<close> keeps the order of its input; what remains is the two derived
  columns, from the morning weight and the morning body-fat percentage only.\<close>

definition derive_row :: "daily_entry \<Rightarrow> df_row" where
  "derive_row r =
     \<lparr> day = day r, morning_weight_lb = morning_weight_lb r, waist_in = waist_in r,
       bf_morning_pct = bf_morning_pct r, cardio_min = cardio_min r,
       deload_week = deload_week r, performance_note = performance_note r,
       adherence_0to1 = adherence_0to1 r,
       lean_mass_lb =
         (case bf_morning_pct r of
            None \<Rightarrow> None
          | Some bf \<Rightarrow> Some (morning_weight_lb r * (1 - bf / 100.0))),
       fat_mass_lb =
         (case bf_morning_pct r of
            None \<Rightarrow> None
          | Some bf \<Rightarrow> Some (morning_weight_lb r * (bf / 100.0))) \<rparr>"

definition df_entries :: "daily_entry list \<Rightarrow> df_row list" where
  "df_entries entries = map derive_row entries"

text \<open>\<^verbatim>\<open>e.tail(n)\<close>: the last \<open>n\<close> rows, or all of them when there are fewer.\<close>

definition df_tail :: "nat \<Rightarrow> 'a list \<Rightarrow> 'a list" where
  "df_tail n rows = drop (length rows - n) rows"

text \<open>\<^verbatim>\<open>column.dropna()\<close>: the present values of a column, in order.\<close>

definition dropna :: "'a option list \<Rightarrow> 'a list" where
  "dropna col = List.map_filter id col"

text \<open>\<^verbatim>\<open>column.mean()\<close> on a column without missing values.\<close>

definition mean :: "real list \<Rightarrow> real" where
  "mean xs = sum_list xs / of_nat (length xs)"

subsection \<open>Rolling mean and weekly delta\<close>

text \<open>\<^verbatim>\<open>series.rolling(window, min_periods).mean()\<close>: at position \<open>i\<close> the window is the
  positions \<open>i + 1 - window\<close> (or 0) to \<open>i\<close>; the result is the mean of the values
  present in it, and missing when fewer than \<open>min_periods\<close> are present.\<close>

definition rolling_mean :: "nat \<Rightarrow> nat \<Rightarrow> real option list \<Rightarrow> real option list" where
  "rolling_mean window min_periods series =
     map (\<lambda>i.
            let obs = dropna (take (min window (i + 1)) (drop (i + 1 - window) series))
            in if length obs < min_periods then None else Some (mean obs))
         [0..<length series]"

text \<open>\<^verbatim>\<open>w7.iloc[-1]\<close> and \<^verbatim>\<open>w7.iloc[-8]\<close> count from the end; both are in range, since
  \<open>w7\<close> is as long as the series and the series has at least 14 values there.\<close>

definition weekly_delta_7day_avg :: "real option list \<Rightarrow> real option" where
  "weekly_delta_7day_avg series =
     (if length series < 14 then None
      else
        let w7 = rolling_mean 7 7 series;
            last_avg = w7 ! (length w7 - 1);
            prev_avg = w7 ! (length w7 - 8)
        in (case (last_avg, prev_avg) of
              (Some l, Some p) \<Rightarrow> Some (l - p)
            | _ \<Rightarrow> None))"

text \<open>The glossary's 7-day rolling average: the mean of the trailing 7 daily values
  ending on day \<open>i\<close>. This one follows the specification's words, to be compared with
  the function above.\<close>

definition spec_trailing_mean7 :: "real list \<Rightarrow> nat \<Rightarrow> real" where
  "spec_trailing_mean7 xs i = (\<Sum>j\<leftarrow>[i - 6..<i + 1]. xs ! j) / 7"

subsection \<open>Lean gain ratio\<close>

text \<open>\<open>recent\<close> is \<^verbatim>\<open>e.tail(14).dropna(subset=["lean_mass_lb"])\<close>. \<^verbatim>\<open>iloc[0]\<close> and
  \<^verbatim>\<open>iloc[-1]\<close> are read only when \<open>recent\<close> has two rows or more, and every row of
  \<open>recent\<close> has a lean mass.\<close>

definition lean_gain_ratio_14d :: "df_row list \<Rightarrow> real option" where
  "lean_gain_ratio_14d e =
     (let recent = filter (\<lambda>r. lean_mass_lb r \<noteq> None) (df_tail 14 e)
      in if length recent < 2 then None
         else
           let w0 = morning_weight_lb (hd recent);
               w1 = morning_weight_lb (last recent);
               lm0 = the (lean_mass_lb (hd recent));
               lm1 = the (lean_mass_lb (last recent));
               dw = w1 - w0;
               dlm = lm1 - lm0
           in if \<bar>dw\<bar> < 0.1 then None else Some (dlm / dw))"

text \<open>The specification's wording of the window: the (weight, lean mass) points of the
  most recent 14 records or fewer, restricted to those with a defined lean mass.\<close>

definition spec_lean_points :: "df_row list \<Rightarrow> (real \<times> real) list" where
  "spec_lean_points e =
     List.map_filter (\<lambda>r. map_option (\<lambda>lm. (morning_weight_lb r, lm)) (lean_mass_lb r))
       (drop (length e - 14) e)"

subsection \<open>Diagnosis\<close>

text \<open>\<^verbatim>\<open>str.lower\<close> on the ASCII letters, and \<^verbatim>\<open>b in n\<close> on strings.\<close>

definition char_lower :: "char \<Rightarrow> char" where
  "char_lower c =
     (if 65 \<le> (of_char c :: nat) \<and> (of_char c :: nat) \<le> 90
      then char_of ((of_char c :: nat) + 32) else c)"

definition str_lower :: "string \<Rightarrow> string" where
  "str_lower s = map char_lower s"

fun starts_with :: "string \<Rightarrow> string \<Rightarrow> bool" where
  "starts_with [] s = True"
| "starts_with (b # bs) [] = False"
| "starts_with (b # bs) (c # cs) = (b = c \<and> starts_with bs cs)"

fun str_in :: "string \<Rightarrow> string \<Rightarrow> bool" where
  "str_in b [] = (b = [])"
| "str_in b (c # cs) = (starts_with b (c # cs) \<or> str_in b cs)"

definition bad_words :: "string list" where
  "bad_words = [''flat'', ''tired'', ''stalled'', ''no progress'', ''weak'']"

text \<open>Last present value minus first present value of a column, when it has two
  present values or more.\<close>

definition first_last_change :: "real option list \<Rightarrow> real option" where
  "first_last_change col =
     (if 2 \<le> length (dropna col) then Some (last (dropna col) - hd (dropna col)) else None)"

definition diagnose :: "df_row list \<Rightarrow> string" where
  "diagnose e =
     (if length e < 14 then ''Need at least ~14 days to diagnose trend vs noise.''
      else
        (case weekly_delta_7day_avg (map (\<lambda>r. Some (morning_weight_lb r)) e) of
           None \<Rightarrow> ''Need enough data for 7-day rolling averages.''
         | Some wk_gain \<Rightarrow>
             let recent = df_tail 14 e;
                 avg_adh =
                   mean (map (\<lambda>r. case adherence_0to1 r of None \<Rightarrow> 1.0 | Some a \<Rightarrow> a) recent);
                 deload =
                   list_ex (\<lambda>r. case deload_week r of None \<Rightarrow> False | Some d \<Rightarrow> d) recent;
                 waist_change = first_last_change (map waist_in recent);
                 lean_change = first_last_change (map lean_mass_lb recent);
                 perf_notes = map str_lower (dropna (map performance_note recent));
                 perf_flat =
                   (2 \<le> length (filter (\<lambda>n. list_ex (\<lambda>b. str_in b n) bad_words) perf_notes))
             in if avg_adh < 0.9
                then ''Likely adherence/data-quality issue first (plan not executed consistently).''
                else if deload
                then
                  (if wk_gain < 0.10
                   then ''Deload flagged. Weight not moving is acceptable; hold diet steady and reassess after deload.''
                   else ''Deload flagged. Avoid training conclusions; reassess next week.'')
                else if wk_gain > 0.75 \<and> (case waist_change of None \<Rightarrow> False | Some wc \<Rightarrow> wc > 0.25)
                then ''Likely diet overshoot (gain too fast + waist rising). Reduce calories slightly.''
                else if wk_gain < 0.10 \<and> perf_flat
                then ''Likely diet/recovery undershoot (not gaining + performance flat). Add calories or reduce cardio/stress.''
                else if 0.25 \<le> wk_gain \<and> wk_gain \<le> 0.50 \<and> perf_flat
                then ''Diet likely adequate (weight trending right). Look at training variables and sleep.''
                else if (case lean_change of None \<Rightarrow> False | Some lc \<Rightarrow> wk_gain > 0.25 \<and> lc < 0)
                then ''Weight up but estimated lean mass down (likely BIA noise or glycogen/hydration swing). Check hydration consistency + use 7-day averages.''
                else ''No clear red flags. Keep running the plan; watch 7-day averages.''))"

subsection \<open>Weekly report\<close>

text \<open>The values \<^verbatim>\<open>report\<close> computes before it prints them. \<open>data\<close> is what
  \<^verbatim>\<open>load_data\<close> returned: the stored entries and the baseline. The two early returns
  print a message and compute nothing.\<close>

record report_values =
  rv_wk_gain :: real
  rv_kcal_adj :: int
  rv_adj_plan :: "plan_entry list"
  rv_diag :: string
  rv_ratio :: "real option"
  rv_ratio_disp :: "real option"
  rv_cardio_notes :: "(string \<times> cardio_note) list"

datatype report_outcome = Not_enough_entries | Need_14_days | Report report_values

definition report :: "daily_entry list \<Rightarrow> baseline \<Rightarrow> py_error + report_outcome" where
  "report entries bl =
     (let e = df_entries entries
      in if e = [] \<or> length e < 7 then Inr Not_enough_entries
         else
           (case weekly_delta_7day_avg (map (\<lambda>r. Some (morning_weight_lb r)) e) of
              None \<Rightarrow> Inr Need_14_days
            | Some wk_gain \<Rightarrow>
                let kcal_adj = suggest_calorie_adjustment wk_gain
                in (case propose_adjustment kcal_adj bl of
                      Inl err \<Rightarrow> Inl err
                    | Inr adj_plan \<Rightarrow>
                        let diag = diagnose e;
                            ratio = lean_gain_ratio_14d e;
                            ratio_disp =
                              (case ratio of
                                 None \<Rightarrow> None
                               | Some r \<Rightarrow> Some (max (- 1.0) (min 2.0 r)));
                            cf = cardio_fuel bl;
                            last7 = df_tail 7 e;
                            over =
                              filter
                                (\<lambda>r. (case cardio_min r of None \<Rightarrow> 0 | Some m \<Rightarrow> m) > threshold_min cf)
                                last7;
                            notes =
                              List.map_filter
                                (\<lambda>r. map_option (\<lambda>n. (day r, n))
                                       (cardio_fuel_note (map_option of_int (cardio_min r)) bl))
                                over
                        in Inr (Report \<lparr> rv_wk_gain = wk_gain, rv_kcal_adj = kcal_adj,
                                  rv_adj_plan = adj_plan, rv_diag = diag, rv_ratio = ratio,
                                  rv_ratio_disp = ratio_disp, rv_cardio_notes = notes \<rparr>))))"

subsection \<open>A sample log\<close>

text \<open>Fourteen consecutive days: the morning weight rises by 0.05 lb a day, adherence
  is 0.85 every day, and the body fat was measured on the first and the last day.\<close>

definition sample_entries :: "daily_entry list" where
  "sample_entries =
     [(DailyEntry ''2026-01-01'' 180.00)
        \<lparr>bf_morning_pct := Some 20, adherence_0to1 := Some 0.85\<rparr>,
      (DailyEntry ''2026-01-02'' 180.05)\<lparr>adherence_0to1 := Some 0.85\<rparr>,
      (DailyEntry ''2026-01-03'' 180.10)\<lparr>adherence_0to1 := Some 0.85\<rparr>,
      (DailyEntry ''2026-01-04'' 180.15)\<lparr>adherence_0to1 := Some 0.85\<rparr>,
      (DailyEntry ''2026-01-05'' 180.20)\<lparr>adherence_0to1 := Some 0.85\<rparr>,
      (DailyEntry ''2026-01-06'' 180.25)\<lparr>adherence_0to1 := Some 0.85\<rparr>,
      (DailyEntry ''2026-01-07'' 180.30)\<lparr>adherence_0to1 := Some 0.85\<rparr>,
      (DailyEntry ''2026-01-08'' 180.35)\<lparr>adherence_0to1 := Some 0.85\<rparr>,
      (DailyEntry ''2026-01-09'' 180.40)\<lparr>adherence_0to1 := Some 0.85\<rparr>,
      (DailyEntry ''2026-01-10'' 180.45)\<lparr>adherence_0to1 := Some 0.85\<rparr>,
      (DailyEntry ''2026-01-11'' 180.50)\<lparr>adherence_0to1 := Some 0.85\<rparr>,
      (DailyEntry ''2026-01-12'' 180.55)\<lparr>adherence_0to1 := Some 0.85\<rparr>,
      (DailyEntry ''2026-01-13'' 180.60)\<lparr>adherence_0to1 := Some 0.85\<rparr>,
      (DailyEntry ''2026-01-14'' 180.65)
        \<lparr>bf_morning_pct := Some 15, adherence_0to1 := Some 0.85\<rparr>]"

section \<open>Properties\<close>

subsection \<open>Calorie adjustment bands\<close>

text \<open>
  C1. For every weekly weight delta \<open>d\<close> the adjustment is +100 below 0.10, +75 on
  [0.10, 0.25), 0 on [0.25, 0.50], -50 on (0.50, 0.75] and -100 above 0.75; at the
  boundary inputs 0.09, 0.10, 0.25, 0.50, 0.51, 0.75, 0.76 it is +100, +75, 0, 0, -50,
  -50, -100.
\<close>

theorem suggest_calorie_adjustment_bands:
  "(d < 0.10 \<longrightarrow> suggest_calorie_adjustment d = 100) \<and>
   (0.10 \<le> d \<and> d < 0.25 \<longrightarrow> suggest_calorie_adjustment d = 75) \<and>
   (0.25 \<le> d \<and> d \<le> 0.50 \<longrightarrow> suggest_calorie_adjustment d = 0) \<and>
   (0.50 < d \<and> d \<le> 0.75 \<longrightarrow> suggest_calorie_adjustment d = - 50) \<and>
   (0.75 < d \<longrightarrow> suggest_calorie_adjustment d = - 100) \<and>
   map suggest_calorie_adjustment [0.09, 0.10, 0.25, 0.50, 0.51, 0.75, 0.76]
     = [100, 75, 0, 0, - 50, - 50, - 100]"
  by (simp add: suggest_calorie_adjustment_def)

theorem suggest_calorie_adjustment_bands_witness:
  "(0.05::real) < 0.10 \<and> suggest_calorie_adjustment 0.05 = 100 \<and>
   (0.10::real) \<le> 0.2 \<and> (0.2::real) < 0.25 \<and> suggest_calorie_adjustment 0.2 = 75 \<and>
   (0.25::real) \<le> 0.3 \<and> (0.3::real) \<le> 0.50 \<and> suggest_calorie_adjustment 0.3 = 0 \<and>
   (0.50::real) < 0.6 \<and> (0.6::real) \<le> 0.75 \<and> suggest_calorie_adjustment 0.6 = - 50 \<and>
   (0.75::real) < 1 \<and> suggest_calorie_adjustment 1 = - 100"
  using suggest_calorie_adjustment_bands [of "0.05"]
    suggest_calorie_adjustment_bands [of "0.2"]
    suggest_calorie_adjustment_bands [of "0.3"]
    suggest_calorie_adjustment_bands [of "0.6"]
    suggest_calorie_adjustment_bands [of 1]
  by simp

subsection \<open>All-or-nothing body-fat average\<close>

text \<open>
  C8. \<open>avg3\<close> returns the arithmetic mean of the three readings exactly when all three
  are present, and nothing as soon as one is missing; (18.0, None, 19.0) gives nothing
  and (18.0, 18.5, 19.0) gives 18.5.
\<close>

theorem avg3_all_or_nothing:
  "avg3 a b c =
     (case (a, b, c) of
        (Some x, Some y, Some z) \<Rightarrow> Some ((x + y + z) / 3)
      | _ \<Rightarrow> None) \<and>
   avg3 (Some 18.0) None (Some 19.0) = None \<and>
   avg3 (Some 18.0) (Some 18.5) (Some 19.0) = Some 18.5"
  by (simp add: avg3_def split: option.splits)

subsection \<open>The allocation loop\<close>

lemma propose_loop_stop:
  "\<bar>r\<bar> \<le> 25 \<Longrightarrow> propose_loop items (r, plan) = Inr (r, plan)"
  by (cases items) simp_all

text \<open>Running the loop over a list in two pieces is running it over the first piece
  and going on from the state reached: after a \<^verbatim>\<open>break\<close> the second run stops at
  once, on the same test.\<close>

lemma propose_loop_append:
  "propose_loop (xs @ ys) st =
     (case propose_loop xs st of Inl err \<Rightarrow> Inl err | Inr st' \<Rightarrow> propose_loop ys st')"
proof (induction xs st rule: propose_loop.induct)
  case (1 remaining plan)
  show ?case by simp
next
  case (2 item items remaining plan)
  show ?case
  proof (cases "\<bar>remaining\<bar> \<le> 25")
    case True
    then show ?thesis by (simp add: propose_loop_stop)
  next
    case False
    then show ?thesis using 2
      by (auto simp: Let_def split: sum.splits option.splits)
  qed
qed

lemma kcal_unknown_not_protein:
  "KCAL_PER_UNIT item = None \<Longrightarrow> item \<noteq> ''whey_g'' \<and> item \<noteq> ''yogurt_cups''"
  by (auto simp: KCAL_PER_UNIT_def)

lemma propose_loop_unknown:
  assumes "KCAL_PER_UNIT item = None" and "25 < \<bar>r\<bar>"
  shows "propose_loop (item # rest) (r, plan) = Inl (KeyError item)"
  using assms kcal_unknown_not_protein [OF assms(1)]
  by (simp add: grams_for_kcal_def)

text \<open>What the loop returns extends the plan it started from; the entries it added
  account for the change of \<^verbatim>\<open>remaining\<close>, and each protein entry among them was
  computed from a \<^verbatim>\<open>remaining\<close> beyond 150 kcal.\<close>

lemma propose_loop_guard:
  "propose_loop items (r, plan) = Inr (r', plan') \<Longrightarrow>
     \<exists>new. plan' = plan @ new \<and> r' = remaining_before r new (length new) \<and>
       (\<forall>i<length new. fst (new ! i) \<in> {''whey_g'', ''yogurt_cups''} \<longrightarrow>
          150 < \<bar>remaining_before r new i\<bar>)"
proof (induction items "(r, plan)" arbitrary: r plan rule: propose_loop.induct)
  case (1 remaining plan)
  then show ?case by (simp add: remaining_before_def)
next
  case (2 item items remaining plan)
  show ?case
  proof (cases "\<bar>remaining\<bar> \<le> 25")
    case True
    with 2(3) show ?thesis by (simp add: remaining_before_def)
  next
    case far: False
    show ?thesis
    proof (cases "item \<in> set [''whey_g'', ''yogurt_cups''] \<and> \<bar>remaining\<bar> \<le> 150")
      case True
      with far 2(3) have "propose_loop items (remaining, plan) = Inr (r', plan')" by simp
      from 2(1)[OF far True this] show ?thesis .
    next
      case used: False
      from far used 2(3) obtain delta0 k where
        g: "grams_for_kcal item remaining = Inr delta0" and
        k: "KCAL_PER_UNIT item = Some k"
        by (auto split: sum.splits option.splits simp: Let_def)
      define delta where "delta =
                   (if delta0 = 0
                    then (let d = (if endswith item ''_g'' then 10 else 1)
                          in if remaining < 0 then d * (- 1) else d)
                    else delta0)"
      define achieved where "achieved = py_round (of_int delta * k)"
      have "propose_loop (item # items) (remaining, plan) =
          propose_loop items (remaining - achieved, plan @ [(item, delta, achieved)])"
        unfolding delta_def achieved_def
        by (simp only: propose_loop.simps far used if_False g k sum.case option.case Let_def)
      with 2(3) have run:
        "propose_loop items (remaining - achieved, plan @ [(item, delta, achieved)])
           = Inr (r', plan')"
        by simp
      from 2(2)[OF far used g delta_def k achieved_def run]
      obtain new where new: "plan' = (plan @ [(item, delta, achieved)]) @ new"
        "r' = remaining_before (remaining - achieved) new (length new)"
        "\<forall>i<length new. fst (new ! i) \<in> {''whey_g'', ''yogurt_cups''} \<longrightarrow>
          150 < \<bar>remaining_before (remaining - achieved) new i\<bar>"
        by blast
      let ?new = "(item, delta, achieved) # new"
      have shift: "remaining_before remaining ?new (Suc j)
          = remaining_before (remaining - achieved) new j" for j
        by (simp add: remaining_before_def)
      have "plan' = plan @ ?new" using new(1) by simp
      moreover have "r' = remaining_before remaining ?new (length ?new)"
        using new(2) shift by simp
      moreover have "\<forall>i<length ?new. fst (?new ! i) \<in> {''whey_g'', ''yogurt_cups''} \<longrightarrow>
          150 < \<bar>remaining_before remaining ?new i\<bar>"
      proof (intro allI impI)
        fix i
        assume i: "i < length ?new"
          and p: "fst (?new ! i) \<in> {''whey_g'', ''yogurt_cups''}"
        show "150 < \<bar>remaining_before remaining ?new i\<bar>"
        proof (cases i)
          case 0
          with p used show ?thesis by (auto simp: remaining_before_def)
        next
          case (Suc j)
          with i p new(3) shift show ?thesis by auto
        qed
      qed
      ultimately show ?thesis by blast
    qed
  qed
qed

text \<open>\<open>remaining_before\<close> is the loop's own \<^verbatim>\<open>remaining\<close>: entry \<open>i\<close> of the plan comes
  from an ingredient of the list, and the run of the loop over the ingredients before
  it ends in the state \<open>(remaining_before r new i, plan @ take i new)\<close>, not stopped.\<close>

lemma propose_loop_trace:
  "propose_loop items (r, plan) = Inr (r', plan') \<Longrightarrow>
     \<exists>new. plan' = plan @ new \<and>
       (\<forall>i<length new. \<exists>before rest.
          items = before @ fst (new ! i) # rest \<and>
          propose_loop before (r, plan) = Inr (remaining_before r new i, plan @ take i new) \<and>
          25 < \<bar>remaining_before r new i\<bar>)"
proof (induction items "(r, plan)" arbitrary: r plan rule: propose_loop.induct)
  case (1 remaining plan)
  then show ?case by simp
next
  case (2 item items remaining plan)
  show ?case
  proof (cases "\<bar>remaining\<bar> \<le> 25")
    case True
    with 2(3) show ?thesis by simp
  next
    case far: False
    show ?thesis
    proof (cases "item \<in> set [''whey_g'', ''yogurt_cups''] \<and> \<bar>remaining\<bar> \<le> 150")
      case True
      have skip: "propose_loop (item # xs) (remaining, plan) = propose_loop xs (remaining, plan)"
        for xs using far True by simp
      with 2(3) have "propose_loop items (remaining, plan) = Inr (r', plan')" by simp
      from 2(1)[OF far True this] obtain new where new: "plan' = plan @ new"
        "\<forall>i<length new. \<exists>before rest.
          items = before @ fst (new ! i) # rest \<and>
          propose_loop before (remaining, plan)
            = Inr (remaining_before remaining new i, plan @ take i new) \<and>
          25 < \<bar>remaining_before remaining new i\<bar>"
        by blast
      have "\<forall>i<length new. \<exists>before rest.
          item # items = before @ fst (new ! i) # rest \<and>
          propose_loop before (remaining, plan)
            = Inr (remaining_before remaining new i, plan @ take i new) \<and>
          25 < \<bar>remaining_before remaining new i\<bar>"
      proof (intro allI impI)
        fix i assume "i < length new"
        with new(2) obtain before rest where b: "items = before @ fst (new ! i) # rest"
          "propose_loop before (remaining, plan)
            = Inr (remaining_before remaining new i, plan @ take i new)"
          "25 < \<bar>remaining_before remaining new i\<bar>"
          by blast
        have "item # items = (item # before) @ fst (new ! i) # rest" using b(1) by simp
        moreover have "propose_loop (item # before) (remaining, plan)
            = Inr (remaining_before remaining new i, plan @ take i new)"
          using skip b(2) by simp
        ultimately show "\<exists>before rest.
          item # items = before @ fst (new ! i) # rest \<and>
          propose_loop before (remaining, plan)
            = Inr (remaining_before remaining new i, plan @ take i new) \<and>
          25 < \<bar>remaining_before remaining new i\<bar>"
          using b(3) by blast
      qed
      with new(1) show ?thesis by blast
    next
      case used: False
      from far used 2(3) obtain delta0 k where
        g: "grams_for_kcal item remaining = Inr delta0" and
        k: "KCAL_PER_UNIT item = Some k"
        by (auto split: sum.splits option.splits simp: Let_def)
      define delta where "delta =
                   (if delta0 = 0
                    then (let d = (if endswith item ''_g'' then 10 else 1)
                          in if remaining < 0 then d * (- 1) else d)
                    else delta0)"
      define achieved where "achieved = py_round (of_int delta * k)"
      have step: "propose_loop (item # xs) (remaining, plan) =
          propose_loop xs (remaining - achieved, plan @ [(item, delta, achieved)])" for xs
        unfolding delta_def achieved_def
        by (simp only: propose_loop.simps far used if_False g k sum.case option.case Let_def)
      with 2(3) have run:
        "propose_loop items (remaining - achieved, plan @ [(item, delta, achieved)])
           = Inr (r', plan')"
        by simp
      from 2(2)[OF far used g delta_def k achieved_def run]
      obtain new where new: "plan' = (plan @ [(item, delta, achieved)]) @ new"
        "\<forall>i<length new. \<exists>before rest.
          items = before @ fst (new ! i) # rest \<and>
          propose_loop before (remaining - achieved, plan @ [(item, delta, achieved)])
            = Inr (remaining_before (remaining - achieved) new i,
                   (plan @ [(item, delta, achieved)]) @ take i new) \<and>
          25 < \<bar>remaining_before (remaining - achieved) new i\<bar>"
        by blast
      let ?new = "(item, delta, achieved) # new"
      have shift: "remaining_before remaining ?new (Suc j)
          = remaining_before (remaining - achieved) new j" for j
        by (simp add: remaining_before_def)
      have "\<forall>i<length ?new. \<exists>before rest.
          item # items = before @ fst (?new ! i) # rest \<and>
          propose_loop before (remaining, plan)
            = Inr (remaining_before remaining ?new i, plan @ take i ?new) \<and>
          25 < \<bar>remaining_before remaining ?new i\<bar>"
      proof (intro allI impI)
        fix i assume i: "i < length ?new"
        show "\<exists>before rest.
          item # items = before @ fst (?new ! i) # rest \<and>
          propose_loop before (remaining, plan)
            = Inr (remaining_before remaining ?new i, plan @ take i ?new) \<and>
          25 < \<bar>remaining_before remaining ?new i\<bar>"
        proof (cases i)
          case 0
          have "item # items = [] @ fst (?new ! 0) # items" by simp
          moreover have "propose_loop [] (remaining, plan)
              = Inr (remaining_before remaining ?new 0, plan @ take 0 ?new)"
            by (simp add: remaining_before_def)
          moreover have "25 < \<bar>remaining_before remaining ?new 0\<bar>"
            using far by (simp add: remaining_before_def)
          ultimately show ?thesis unfolding 0 by blast
        next
          case (Suc j)
          with i have "j < length new" by simp
          with new(2) obtain before rest where b: "items = before @ fst (new ! j) # rest"
            "propose_loop before (remaining - achieved, plan @ [(item, delta, achieved)])
              = Inr (remaining_before (remaining - achieved) new j,
                     (plan @ [(item, delta, achieved)]) @ take j new)"
            "25 < \<bar>remaining_before (remaining - achieved) new j\<bar>"
            by blast
          have "item # items = (item # before) @ fst (?new ! Suc j) # rest"
            using b(1) by simp
          moreover have "propose_loop (item # before) (remaining, plan)
              = Inr (remaining_before remaining ?new (Suc j), plan @ take (Suc j) ?new)"
            using step b(2) shift by simp
          moreover have "25 < \<bar>remaining_before remaining ?new (Suc j)\<bar>"
            using b(3) shift by simp
          ultimately show ?thesis unfolding Suc by blast
        qed
      qed
      moreover have "plan' = plan @ ?new" using new(1) by simp
      ultimately show ?thesis by blast
    qed
  qed
qed

lemma propose_adjustment_trace:
  assumes "kcal_change \<noteq> 0" and "propose_adjustment kcal_change bl = Inr plan"
    and "i < length plan"
  shows "\<exists>before rest.
      adjust_priority bl = before @ fst (plan ! i) # rest \<and>
      propose_loop before (kcal_change, [])
        = Inr (remaining_before kcal_change plan i, take i plan)"
proof -
  from assms(1, 2) obtain r' where
    "propose_loop (adjust_priority bl) (kcal_change, []) = Inr (r', plan)"
    by (auto simp: propose_adjustment_def split: sum.splits)
  from propose_loop_trace [OF this] assms(3) show ?thesis by fastforce
qed

text \<open>
  C3. With a kcal delta of 0, \<open>propose_adjustment\<close> returns the empty plan, whatever the
  baseline. With a nonzero delta, no entry of the returned plan is a whey or yogurt
  entry appended while the running \<open>\<bar>remaining\<bar>\<close> was 150 kcal or less: for each
  protein entry, the \<^verbatim>\<open>remaining\<close> it was computed from is beyond 150 in absolute value,
  and that \<^verbatim>\<open>remaining\<close> is the state the loop was in when it came to the entry's
  ingredient.
\<close>

theorem propose_adjustment_zero_and_protein_guard:
  "propose_adjustment 0 bl = Inr [] \<and>
   (kcal_change \<noteq> 0 \<longrightarrow> propose_adjustment kcal_change bl = Inr plan \<longrightarrow>
      i < length plan \<longrightarrow> fst (plan ! i) \<in> {''whey_g'', ''yogurt_cups''} \<longrightarrow>
      150 < \<bar>remaining_before kcal_change plan i\<bar> \<and>
      (\<exists>before rest.
         adjust_priority bl = before @ fst (plan ! i) # rest \<and>
         propose_loop before (kcal_change, [])
           = Inr (remaining_before kcal_change plan i, take i plan)))"
proof (intro conjI impI)
  show "propose_adjustment 0 bl = Inr []" by (simp add: propose_adjustment_def)
next
  assume nz: "kcal_change \<noteq> 0" and run: "propose_adjustment kcal_change bl = Inr plan"
    and i: "i < length plan" and p: "fst (plan ! i) \<in> {''whey_g'', ''yogurt_cups''}"
  from nz run obtain r' where
    "propose_loop (adjust_priority bl) (kcal_change, []) = Inr (r', plan)"
    by (auto simp: propose_adjustment_def split: sum.splits)
  from propose_loop_guard [OF this] i p
  show "150 < \<bar>remaining_before kcal_change plan i\<bar>" by auto
next
  assume nz: "kcal_change \<noteq> 0" and run: "propose_adjustment kcal_change bl = Inr plan"
    and i: "i < length plan"
  then show "\<exists>before rest.
      adjust_priority bl = before @ fst (plan ! i) # rest \<and>
      propose_loop before (kcal_change, [])
        = Inr (remaining_before kcal_change plan i, take i plan)"
    by (rule propose_adjustment_trace)
qed

theorem propose_adjustment_zero_and_protein_guard_witness:
  "propose_adjustment 0 (BASELINE\<lparr>adjust_priority := [''whey_g'', ''mct_g'']\<rparr>) = Inr [] \<and>
   (300::int) \<noteq> 0 \<and>
   propose_adjustment 300 (BASELINE\<lparr>adjust_priority := [''whey_g'', ''mct_g'']\<rparr>)
     = Inr [(''whey_g'', 80, 301)] \<and>
   (0::nat) < length [(''whey_g'', 80::int, 301::int)] \<and>
   fst ([(''whey_g'', 80::int, 301::int)] ! 0) \<in> {''whey_g'', ''yogurt_cups''} \<and>
   150 < \<bar>remaining_before 300 [(''whey_g'', 80, 301)] 0\<bar>"
proof -
  have run: "propose_adjustment 300 (BASELINE\<lparr>adjust_priority := [''whey_g'', ''mct_g'']\<rparr>)
      = Inr [(''whey_g'', 80, 301)]"
    by (simp add: propose_adjustment_def grams_for_kcal_def KCAL_PER_UNIT_def py_round_def
        endswith_def Let_def)
  show ?thesis
    using run
      propose_adjustment_zero_and_protein_guard
        [of "BASELINE\<lparr>adjust_priority := [''whey_g'', ''mct_g'']\<rparr>" 300
           "[(''whey_g'', 80, 301)]" 0]
    by simp
qed

text \<open>
  C4. When the priority list names an ingredient without a density entry and the loop
  reaches it (the run over the ingredients before it returned normally, with more than
  25 kcal still to place), \<open>propose_adjustment\<close> ends with the \<^verbatim>\<open>KeyError\<close> of that
  ingredient: no plan is returned, and the rest of the list is not processed.
\<close>

theorem propose_adjustment_unknown_ingredient:
  assumes "adjust_priority bl = before @ item # rest"
    and "KCAL_PER_UNIT item = None"
    and "kcal_change \<noteq> 0"
    and "propose_loop before (kcal_change, []) = Inr (remaining, plan)"
    and "25 < \<bar>remaining\<bar>"
  shows "propose_adjustment kcal_change bl = Inl (KeyError item)"
proof -
  have "propose_loop (before @ item # rest) (kcal_change, [])
      = propose_loop (item # rest) (remaining, plan)"
    using assms(4) by (simp add: propose_loop_append)
  also have "\<dots> = Inl (KeyError item)"
    using assms(2, 5) by (rule propose_loop_unknown)
  finally show ?thesis
    using assms(1, 3) by (simp add: propose_adjustment_def)
qed

theorem propose_adjustment_unknown_ingredient_witness:
  "adjust_priority (BASELINE\<lparr>adjust_priority := [''bananas'', ''rice_g'', ''eggs'']\<rparr>)
     = [''bananas''] @ ''rice_g'' # [''eggs''] \<and>
   KCAL_PER_UNIT ''rice_g'' = None \<and>
   (- 50::int) \<noteq> 0 \<and>
   propose_loop [''bananas''] (- 50, []) = Inr (54, [(''bananas'', - 1, - 104)]) \<and>
   25 < \<bar>54::int\<bar> \<and>
   propose_adjustment (- 50) (BASELINE\<lparr>adjust_priority := [''bananas'', ''rice_g'', ''eggs'']\<rparr>)
     = Inl (KeyError ''rice_g'')"
proof -
  have a: "adjust_priority (BASELINE\<lparr>adjust_priority := [''bananas'', ''rice_g'', ''eggs'']\<rparr>)
      = [''bananas''] @ ''rice_g'' # [''eggs'']"
    by simp
  have b: "KCAL_PER_UNIT ''rice_g'' = None"
    by (simp add: KCAL_PER_UNIT_def)
  have c: "(- 50::int) \<noteq> 0" by simp
  have d: "propose_loop [''bananas''] (- 50, []) = Inr (54, [(''bananas'', - 1, - 104)])"
    by (simp add: grams_for_kcal_def KCAL_PER_UNIT_def py_round_def endswith_def Let_def)
  have e: "25 < \<bar>54::int\<bar>" by simp
  from propose_adjustment_unknown_ingredient [OF a b c d e] a b c d e
  show ?thesis by blast
qed

text \<open>
  C10. There are a baseline and a nonzero kcal delta whose plan holds a positive and a
  negative quantity: with the priority list bananas, eggs and a delta of +30, the
  forced step of one banana achieves 104 kcal, \<^verbatim>\<open>remaining\<close> turns to -74, and the next
  entry takes one egg away.
\<close>

theorem propose_adjustment_mixed_signs:
  "propose_adjustment 30 (BASELINE\<lparr>adjust_priority := [''bananas'', ''eggs'']\<rparr>)
     = Inr [(''bananas'', 1, 104), (''eggs'', - 1, - 78)] \<and>
   (\<exists>bl kcal_change plan.
      kcal_change \<noteq> 0 \<and> propose_adjustment kcal_change bl = Inr plan \<and>
      (\<exists>(item, delta, achieved) \<in> set plan. 0 < delta) \<and>
      (\<exists>(item, delta, achieved) \<in> set plan. delta < 0))"
proof -
  have run: "propose_adjustment 30 (BASELINE\<lparr>adjust_priority := [''bananas'', ''eggs'']\<rparr>)
      = Inr [(''bananas'', 1, 104), (''eggs'', - 1, - 78)]"
    by (simp add: propose_adjustment_def grams_for_kcal_def KCAL_PER_UNIT_def py_round_def
        endswith_def Let_def)
  have "(30::int) \<noteq> 0 \<and>
      propose_adjustment 30 (BASELINE\<lparr>adjust_priority := [''bananas'', ''eggs'']\<rparr>)
        = Inr [(''bananas'', 1, 104), (''eggs'', - 1, - 78)] \<and>
      (\<exists>(item, delta, achieved) \<in> set [(''bananas'', 1::int, 104::int), (''eggs'', - 1, - 78)].
         0 < delta) \<and>
      (\<exists>(item, delta, achieved) \<in> set [(''bananas'', 1::int, 104::int), (''eggs'', - 1, - 78)].
         delta < 0)"
    using run by simp
  then show ?thesis using run by blast
qed

subsection \<open>Weekly delta\<close>

lemma dropna_map_Some: "dropna (map Some ys) = ys"
  by (induction ys) (simp_all add: dropna_def)

lemma length_rolling_mean: "length (rolling_mean w m s) = length s"
  by (simp add: rolling_mean_def)

lemma map_nth_window:
  "k + n \<le> length xs \<Longrightarrow> map ((!) xs) [k..<k + n] = take n (drop k xs)"
  by (rule nth_equalityI) auto

lemma sum_window:
  assumes "6 \<le> i" "i < length xs"
  shows "sum_list (take 7 (drop (i - 6) xs)) = (\<Sum>j\<leftarrow>[i - 6..<i + 1]. xs ! j)"
proof -
  have e: "i + 1 = (i - 6) + 7" using assms by simp
  have "map ((!) xs) [i - 6..<(i - 6) + 7] = take 7 (drop (i - 6) xs)"
    using assms by (intro map_nth_window) simp
  then show ?thesis unfolding e by simp
qed

text \<open>On a series without missing values, the pandas rolling mean at a position from
  6 on is the mean of the trailing seven values.\<close>

lemma rolling_mean7_nth:
  assumes "6 \<le> i" "i < length xs"
  shows "rolling_mean 7 7 (map Some xs) ! i = Some (spec_trailing_mean7 xs i)"
proof -
  have w: "dropna (take (min 7 (i + 1)) (drop (i + 1 - 7) (map Some xs)))
      = take 7 (drop (i - 6) xs)"
    using assms by (simp add: take_map drop_map dropna_map_Some)
  have len: "length (take 7 (drop (i - 6) xs)) = 7"
    using assms by simp
  have "rolling_mean 7 7 (map Some xs) ! i
      = (let obs = dropna (take (min 7 (i + 1)) (drop (i + 1 - 7) (map Some xs)))
         in if length obs < 7 then None else Some (mean obs))"
    using assms by (simp add: rolling_mean_def)
  also have "\<dots> = Some (mean (take 7 (drop (i - 6) xs)))"
    unfolding w Let_def using len by simp
  also have "mean (take 7 (drop (i - 6) xs)) = spec_trailing_mean7 xs i"
    unfolding mean_def spec_trailing_mean7_def len sum_window [OF assms] by simp
  finally show ?thesis .
qed

text \<open>
  C7. On a series of fewer than 14 points \<open>weekly_delta_7day_avg\<close> returns no value.
  On a series of at least 14 daily points it returns a value: the 7-day trailing mean at
  the latest day minus the 7-day trailing mean 7 days earlier.
\<close>

theorem weekly_delta_7day_avg_needs_14:
  "(length series < 14 \<longrightarrow> weekly_delta_7day_avg series = None) \<and>
   (14 \<le> length xs \<longrightarrow>
      weekly_delta_7day_avg (map Some xs)
        = Some (spec_trailing_mean7 xs (length xs - 1)
                - spec_trailing_mean7 xs (length xs - 8)))"
proof (intro conjI impI)
  assume "length series < 14"
  then show "weekly_delta_7day_avg series = None"
    by (simp add: weekly_delta_7day_avg_def)
next
  assume n: "14 \<le> length xs"
  let ?w7 = "rolling_mean 7 7 (map Some xs)"
  have l: "length ?w7 = length xs" by (simp add: length_rolling_mean)
  from n have a: "?w7 ! (length ?w7 - 1) = Some (spec_trailing_mean7 xs (length xs - 1))"
    unfolding l by (intro rolling_mean7_nth) simp_all
  from n have b: "?w7 ! (length ?w7 - 8) = Some (spec_trailing_mean7 xs (length xs - 8))"
    unfolding l by (intro rolling_mean7_nth) simp_all
  have "weekly_delta_7day_avg (map Some xs)
      = (case (?w7 ! (length ?w7 - 1), ?w7 ! (length ?w7 - 8)) of
           (Some l, Some p) \<Rightarrow> Some (l - p) | _ \<Rightarrow> None)"
    using n unfolding weekly_delta_7day_avg_def Let_def by simp
  also have "\<dots> = Some (spec_trailing_mean7 xs (length xs - 1)
      - spec_trailing_mean7 xs (length xs - 8))"
    unfolding a b by simp
  finally show "weekly_delta_7day_avg (map Some xs)
      = Some (spec_trailing_mean7 xs (length xs - 1)
              - spec_trailing_mean7 xs (length xs - 8))" .
qed

theorem weekly_delta_7day_avg_needs_14_witness:
  "length [Some 1, Some 2, Some 3, Some 4, Some 5, Some 6, Some 7, Some 8, Some 9, Some 10,
           Some 11, Some 12, Some (13::real)] < 14 \<and>
   weekly_delta_7day_avg
     [Some 1, Some 2, Some 3, Some 4, Some 5, Some 6, Some 7, Some 8, Some 9, Some 10,
      Some 11, Some 12, Some 13] = None \<and>
   14 \<le> length [1, 2, 3, 4, 5, 6, 7, 8, 9, 10, 11, 12, 13, 14::real] \<and>
   weekly_delta_7day_avg (map Some [1, 2, 3, 4, 5, 6, 7, 8, 9, 10, 11, 12, 13, 14]) = Some 7"
  using weekly_delta_7day_avg_needs_14
    [of "[Some 1, Some 2, Some 3, Some 4, Some 5, Some 6, Some 7, Some 8, Some 9,
          Some 10, Some 11, Some 12, Some 13]"
        "[1, 2, 3, 4, 5, 6, 7, 8, 9, 10, 11, 12, 13, 14]"]
  by (simp add: spec_trailing_mean7_def upt_rec)

lemma sample_delta:
  "weekly_delta_7day_avg (map (\<lambda>r. Some (morning_weight_lb r)) (df_entries sample_entries))
     = Some 0.35"
  by (simp add: weekly_delta_7day_avg_def rolling_mean_def dropna_def mean_def
      df_entries_def derive_row_def sample_entries_def DailyEntry_def upt_rec Let_def)

subsection \<open>Lean gain ratio\<close>

lemma spec_lean_points_filter:
  "spec_lean_points e =
     map (\<lambda>r. (morning_weight_lb r, the (lean_mass_lb r)))
       (filter (\<lambda>r. lean_mass_lb r \<noteq> None) (df_tail 14 e))"
proof -
  have "List.map_filter (\<lambda>r. map_option (\<lambda>lm. (morning_weight_lb r, lm)) (lean_mass_lb r)) xs
      = map (\<lambda>r. (morning_weight_lb r, the (lean_mass_lb r)))
          (filter (\<lambda>r. lean_mass_lb r \<noteq> None) xs)" for xs :: "df_row list"
    by (induction xs) auto
  then show ?thesis by (simp add: spec_lean_points_def df_tail_def)
qed

text \<open>The function, read on the points of the window.\<close>

lemma lean_gain_ratio_14d_spec:
  "lean_gain_ratio_14d e =
     (let pts = spec_lean_points e
      in if length pts < 2 then None
         else if \<bar>fst (last pts) - fst (hd pts)\<bar> < 0.1 then None
         else Some ((snd (last pts) - snd (hd pts)) / (fst (last pts) - fst (hd pts))))"
proof -
  define recent where "recent = filter (\<lambda>r. lean_mass_lb r \<noteq> None) (df_tail 14 e)"
  have pts: "spec_lean_points e = map (\<lambda>r. (morning_weight_lb r, the (lean_mass_lb r))) recent"
    by (simp add: spec_lean_points_filter recent_def)
  have code: "lean_gain_ratio_14d e =
      (if length recent < 2 then None
       else if \<bar>morning_weight_lb (last recent) - morning_weight_lb (hd recent)\<bar> < 0.1
       then None
       else Some ((the (lean_mass_lb (last recent)) - the (lean_mass_lb (hd recent))) /
                  (morning_weight_lb (last recent) - morning_weight_lb (hd recent))))"
    unfolding lean_gain_ratio_14d_def recent_def Let_def ..
  show ?thesis
  proof (cases "length recent < 2")
    case True
    then show ?thesis
      by (simp add: code pts Let_def)
  next
    case False
    then have ne: "recent \<noteq> []" by auto
    with False show ?thesis
      by (simp add: code pts Let_def hd_map last_map)
  qed
qed

lemma lean_gain_ratio_14d_raw:
  assumes "lean_gain_ratio_14d e = Some r"
  shows "r = (snd (last (spec_lean_points e)) - snd (hd (spec_lean_points e))) /
             (fst (last (spec_lean_points e)) - fst (hd (spec_lean_points e)))"
  using assms unfolding lean_gain_ratio_14d_spec Let_def by (simp split: if_splits)

text \<open>
  C5. Over the (weight, lean mass) points of the most recent 14 records or fewer that
  have a lean mass, \<open>lean_gain_ratio_14d\<close> returns no value when there are fewer than 2
  points or when the weight of the last point differs from that of the first by less
  than 0.1 lb, and otherwise the lean-mass difference divided by the weight difference.
  A weight difference of 0.05 lb gives no value whatever the two lean masses are.
\<close>

theorem lean_gain_ratio_14d_window:
  "(length (spec_lean_points e) < 2 \<longrightarrow> lean_gain_ratio_14d e = None) \<and>
   (2 \<le> length (spec_lean_points e) \<longrightarrow>
      \<bar>fst (last (spec_lean_points e)) - fst (hd (spec_lean_points e))\<bar> < 0.1 \<longrightarrow>
      lean_gain_ratio_14d e = None) \<and>
   (2 \<le> length (spec_lean_points e) \<longrightarrow>
      0.1 \<le> \<bar>fst (last (spec_lean_points e)) - fst (hd (spec_lean_points e))\<bar> \<longrightarrow>
      lean_gain_ratio_14d e =
        Some ((snd (last (spec_lean_points e)) - snd (hd (spec_lean_points e))) /
              (fst (last (spec_lean_points e)) - fst (hd (spec_lean_points e))))) \<and>
   lean_gain_ratio_14d
     [r\<lparr>lean_mass_lb := Some lm0\<rparr>,
      r\<lparr>morning_weight_lb := morning_weight_lb r + 0.05, lean_mass_lb := Some lm1\<rparr>] = None"
  by (simp add: lean_gain_ratio_14d_spec Let_def) (simp add: spec_lean_points_def)

theorem lean_gain_ratio_14d_window_witness:
  "length (spec_lean_points []) < 2 \<and> lean_gain_ratio_14d [] = None \<and>
   2 \<le> length (spec_lean_points (df_entries
         [(DailyEntry ''2026-01-01'' 180)\<lparr>bf_morning_pct := Some 20\<rparr>,
          (DailyEntry ''2026-01-02'' 180.05)\<lparr>bf_morning_pct := Some 15\<rparr>])) \<and>
   \<bar>fst (last (spec_lean_points (df_entries
         [(DailyEntry ''2026-01-01'' 180)\<lparr>bf_morning_pct := Some 20\<rparr>,
          (DailyEntry ''2026-01-02'' 180.05)\<lparr>bf_morning_pct := Some 15\<rparr>])))
    - fst (hd (spec_lean_points (df_entries
         [(DailyEntry ''2026-01-01'' 180)\<lparr>bf_morning_pct := Some 20\<rparr>,
          (DailyEntry ''2026-01-02'' 180.05)\<lparr>bf_morning_pct := Some 15\<rparr>])))\<bar> < 0.1 \<and>
   lean_gain_ratio_14d (df_entries
         [(DailyEntry ''2026-01-01'' 180)\<lparr>bf_morning_pct := Some 20\<rparr>,
          (DailyEntry ''2026-01-02'' 180.05)\<lparr>bf_morning_pct := Some 15\<rparr>]) = None \<and>
   2 \<le> length (spec_lean_points (df_entries
         [(DailyEntry ''2026-01-01'' 180)\<lparr>bf_morning_pct := Some 20\<rparr>,
          DailyEntry ''2026-01-02'' 180.5,
          (DailyEntry ''2026-01-03'' 181)\<lparr>bf_morning_pct := Some 19\<rparr>])) \<and>
   0.1 \<le> \<bar>fst (last (spec_lean_points (df_entries
         [(DailyEntry ''2026-01-01'' 180)\<lparr>bf_morning_pct := Some 20\<rparr>,
          DailyEntry ''2026-01-02'' 180.5,
          (DailyEntry ''2026-01-03'' 181)\<lparr>bf_morning_pct := Some 19\<rparr>])))
    - fst (hd (spec_lean_points (df_entries
         [(DailyEntry ''2026-01-01'' 180)\<lparr>bf_morning_pct := Some 20\<rparr>,
          DailyEntry ''2026-01-02'' 180.5,
          (DailyEntry ''2026-01-03'' 181)\<lparr>bf_morning_pct := Some 19\<rparr>])))\<bar> \<and>
   lean_gain_ratio_14d (df_entries
         [(DailyEntry ''2026-01-01'' 180)\<lparr>bf_morning_pct := Some 20\<rparr>,
          DailyEntry ''2026-01-02'' 180.5,
          (DailyEntry ''2026-01-03'' 181)\<lparr>bf_morning_pct := Some 19\<rparr>]) = Some 2.61"
  using lean_gain_ratio_14d_window [of "[]"]
    lean_gain_ratio_14d_window [of "df_entries
         [(DailyEntry ''2026-01-01'' 180)\<lparr>bf_morning_pct := Some 20\<rparr>,
          (DailyEntry ''2026-01-02'' 180.05)\<lparr>bf_morning_pct := Some 15\<rparr>]"]
    lean_gain_ratio_14d_window [of "df_entries
         [(DailyEntry ''2026-01-01'' 180)\<lparr>bf_morning_pct := Some 20\<rparr>,
          DailyEntry ''2026-01-02'' 180.5,
          (DailyEntry ''2026-01-03'' 181)\<lparr>bf_morning_pct := Some 19\<rparr>]"]
  by (simp add: spec_lean_points_def df_entries_def derive_row_def DailyEntry_def)

lemma sample_ratio:
  "lean_gain_ratio_14d (df_entries sample_entries) = Some (3821 / 260)"
  unfolding lean_gain_ratio_14d_spec Let_def
  by (simp add: spec_lean_points_def df_entries_def derive_row_def sample_entries_def
      DailyEntry_def)

subsection \<open>The clamp of the report\<close>

lemma sample_report:
  "report sample_entries BASELINE =
     Inr (Report \<lparr> rv_wk_gain = 0.35, rv_kcal_adj = 0, rv_adj_plan = [],
            rv_diag = diagnose (df_entries sample_entries),
            rv_ratio = Some (3821 / 260), rv_ratio_disp = Some 2, rv_cardio_notes = [] \<rparr>)"
proof -
  have len: "length (df_entries sample_entries) = 14"
    by (simp add: df_entries_def sample_entries_def)
  have ne: "df_entries sample_entries \<noteq> []"
    using len by auto
  have cardio: "filter (\<lambda>r. (case cardio_min r of None \<Rightarrow> 0 | Some m \<Rightarrow> m)
        > threshold_min (cardio_fuel BASELINE)) (df_tail 7 (df_entries sample_entries)) = []"
    by (simp add: df_tail_def df_entries_def derive_row_def sample_entries_def DailyEntry_def
        BASELINE_def)
  show ?thesis
    unfolding report_def Let_def
    by (simp add: len ne sample_delta sample_ratio cardio suggest_calorie_adjustment_def
        propose_adjustment_def)
qed

text \<open>
  C6. Where the report is produced, the ratio it holds is the value that
  \<open>lean_gain_ratio_14d\<close> returned, which is the raw quotient of the window, never
  clamped; the display value is a second value, that ratio clamped to [-1.0, 2.0], and
  computing it leaves the ratio as it was.
\<close>

theorem report_clamps_display_copy_only:
  assumes "report entries bl = Inr (Report v)"
  shows "rv_ratio v = lean_gain_ratio_14d (df_entries entries) \<and>
    rv_ratio_disp v = map_option (\<lambda>r. max (- 1) (min 2 r)) (rv_ratio v) \<and>
    (\<forall>r. rv_ratio v = Some r \<longrightarrow>
       r = (snd (last (spec_lean_points (df_entries entries)))
              - snd (hd (spec_lean_points (df_entries entries)))) /
           (fst (last (spec_lean_points (df_entries entries)))
              - fst (hd (spec_lean_points (df_entries entries))))) \<and>
    (\<forall>d. rv_ratio_disp v = Some d \<longrightarrow> - 1 \<le> d \<and> d \<le> 2)"
proof -
  from assms have ratio: "rv_ratio v = lean_gain_ratio_14d (df_entries entries)"
    and disp: "rv_ratio_disp v =
      (case lean_gain_ratio_14d (df_entries entries) of
         None \<Rightarrow> None | Some r \<Rightarrow> Some (max (- 1) (min 2 r)))"
    unfolding report_def Let_def
    by (auto split: if_splits option.splits sum.splits)
  from disp have disp': "rv_ratio_disp v = map_option (\<lambda>r. max (- 1) (min 2 r)) (rv_ratio v)"
    unfolding ratio by (simp split: option.splits)
  have raw: "\<forall>r. rv_ratio v = Some r \<longrightarrow>
       r = (snd (last (spec_lean_points (df_entries entries)))
              - snd (hd (spec_lean_points (df_entries entries)))) /
           (fst (last (spec_lean_points (df_entries entries)))
              - fst (hd (spec_lean_points (df_entries entries))))"
    unfolding ratio using lean_gain_ratio_14d_raw by blast
  have bounds: "\<forall>d. rv_ratio_disp v = Some d \<longrightarrow> - 1 \<le> d \<and> d \<le> 2"
    unfolding disp' by (auto split: option.splits)
  from ratio disp' raw bounds show ?thesis by blast
qed

theorem report_clamps_display_copy_only_witness:
  "report sample_entries BASELINE =
     Inr (Report \<lparr> rv_wk_gain = 0.35, rv_kcal_adj = 0, rv_adj_plan = [],
            rv_diag = diagnose (df_entries sample_entries),
            rv_ratio = Some (3821 / 260), rv_ratio_disp = Some 2, rv_cardio_notes = [] \<rparr>) \<and>
   lean_gain_ratio_14d (df_entries sample_entries) = Some (3821 / 260) \<and>
   (2::real) < 3821 / 260"
proof -
  from report_clamps_display_copy_only [OF sample_report]
  have "Some (3821 / 260) = lean_gain_ratio_14d (df_entries sample_entries)"
    by simp
  with sample_report show ?thesis by simp
qed

subsection \<open>Adherence comes first in the diagnosis\<close>

text \<open>
  C2. For a frame of at least 14 rows whose weekly delta is defined, when the mean
  adherence of the last 14 rows, a missing adherence counting as 1.0, is below 0.9,
  \<open>diagnose\<close> returns the adherence verdict, whatever the deload flags, the weekly
  delta, the waist and lean-mass changes and the performance notes are.
\<close>

theorem diagnose_adherence_first:
  assumes "14 \<le> length e"
    and "weekly_delta_7day_avg (map (\<lambda>r. Some (morning_weight_lb r)) e) = Some wk_gain"
    and "sum_list (map (\<lambda>r. case adherence_0to1 r of None \<Rightarrow> 1 | Some a \<Rightarrow> a)
           (drop (length e - 14) e)) / 14 < 0.9"
  shows "diagnose e
    = ''Likely adherence/data-quality issue first (plan not executed consistently).''"
proof -
  have len: "length (df_tail 14 e) = 14"
    using assms(1) by (simp add: df_tail_def)
  have fill: "(\<lambda>r::df_row. case adherence_0to1 r of None \<Rightarrow> 1.0 | Some a \<Rightarrow> a)
      = (\<lambda>r. case adherence_0to1 r of None \<Rightarrow> 1 | Some a \<Rightarrow> a)"
    by (intro ext) (simp split: option.splits)
  have "mean (map (\<lambda>r. case adherence_0to1 r of None \<Rightarrow> 1.0 | Some a \<Rightarrow> a) (df_tail 14 e))
      < 0.9"
    unfolding fill using assms(3) len by (simp add: mean_def df_tail_def)
  then show ?thesis
    using assms(1, 2) unfolding diagnose_def Let_def by simp
qed

theorem diagnose_adherence_first_witness:
  "14 \<le> length (df_entries sample_entries) \<and>
   weekly_delta_7day_avg (map (\<lambda>r. Some (morning_weight_lb r)) (df_entries sample_entries))
     = Some 0.35 \<and>
   sum_list (map (\<lambda>r. case adherence_0to1 r of None \<Rightarrow> 1 | Some a \<Rightarrow> a)
     (drop (length (df_entries sample_entries) - 14) (df_entries sample_entries))) / 14
     < 0.9 \<and>
   diagnose (df_entries sample_entries)
     = ''Likely adherence/data-quality issue first (plan not executed consistently).''"
proof -
  have a: "14 \<le> length (df_entries sample_entries)"
    by (simp add: df_entries_def sample_entries_def)
  have c: "sum_list (map (\<lambda>r. case adherence_0to1 r of None \<Rightarrow> 1 | Some a \<Rightarrow> a)
     (drop (length (df_entries sample_entries) - 14) (df_entries sample_entries))) / 14
     < 0.9"
    by (simp add: df_entries_def derive_row_def sample_entries_def DailyEntry_def)
  from diagnose_adherence_first [OF a sample_delta c] a sample_delta c
  show ?thesis by blast
qed

subsection \<open>Cardio fuel guardrail\<close>

text \<open>The minutes are truncated before the comparison, so a fractional value between
  45 and 46, which no \<^verbatim>\<open>DailyEntry\<close> holds, gives no advisory.\<close>

lemma cardio_fuel_note_truncates:
  "threshold_min (cardio_fuel bl) = 45 \<Longrightarrow> cardio_fuel_note (Some 45.5) bl = None"
  by (simp add: cardio_fuel_note_def py_int_def Let_def)

text \<open>
  C9. With a threshold of 45, \<open>cardio_fuel_note\<close> gives an advisory for a record exactly
  when its cardio minutes are present and greater than 45: 46 minutes give one, 45 do
  not, missing minutes never do. When the preferred source is oats, the advised oats are
  40 g: the 25 g of carbohydrate divided by 0.67, rounded to the nearest 10 g.
\<close>

theorem cardio_fuel_note_threshold:
  "(threshold_min (cardio_fuel bl) = 45 \<longrightarrow>
      (cardio_fuel_note (map_option of_int (cardio_min (r::daily_entry))) bl \<noteq> None)
        = (\<exists>n. cardio_min r = Some n \<and> 45 < n)) \<and>
   (threshold_min (cardio_fuel bl) = 45 \<longrightarrow>
      cardio_fuel_note (Some 46) bl \<noteq> None \<and> cardio_fuel_note (Some 45) bl = None \<and>
      cardio_fuel_note None bl = None) \<and>
   (threshold_min (cardio_fuel bl) = 45 \<longrightarrow> add_carbs_g (cardio_fuel bl) = 25 \<longrightarrow>
      preferred_source (cardio_fuel bl) = ''oats_g'' \<longrightarrow> 45 < n \<longrightarrow>
      cardio_fuel_note (Some (of_int n)) bl = Some (Note_oats n 45 25 40) \<and>
      (40::int) = py_round ((25 / 0.67) / 10) * 10 \<and> \<bar>40 - 25 / 0.67\<bar> \<le> (5::real))"
  by (cases "cardio_min r") (auto simp: cardio_fuel_note_def py_int_def py_round_def Let_def)

theorem cardio_fuel_note_threshold_witness:
  "threshold_min (cardio_fuel BASELINE) = 45 \<and>
   cardio_min ((DailyEntry ''2026-01-01'' 180)\<lparr>cardio_min := Some 46\<rparr>) = Some 46 \<and>
   cardio_fuel_note
     (map_option of_int (cardio_min ((DailyEntry ''2026-01-01'' 180)\<lparr>cardio_min := Some 46\<rparr>)))
     BASELINE \<noteq> None \<and>
   cardio_fuel_note (Some 46) BASELINE \<noteq> None \<and>
   cardio_fuel_note (Some 45) BASELINE = None \<and>
   cardio_fuel_note None BASELINE = None \<and>
   threshold_min (cardio_fuel
     (BASELINE\<lparr>cardio_fuel := (cardio_fuel BASELINE)\<lparr>preferred_source := ''oats_g''\<rparr>\<rparr>)) = 45 \<and>
   add_carbs_g (cardio_fuel
     (BASELINE\<lparr>cardio_fuel := (cardio_fuel BASELINE)\<lparr>preferred_source := ''oats_g''\<rparr>\<rparr>)) = 25 \<and>
   preferred_source (cardio_fuel
     (BASELINE\<lparr>cardio_fuel := (cardio_fuel BASELINE)\<lparr>preferred_source := ''oats_g''\<rparr>\<rparr>))
     = ''oats_g'' \<and>
   (45::int) < 60 \<and>
   cardio_fuel_note (Some (of_int 60))
     (BASELINE\<lparr>cardio_fuel := (cardio_fuel BASELINE)\<lparr>preferred_source := ''oats_g''\<rparr>\<rparr>)
     = Some (Note_oats 60 45 25 40)"
  using cardio_fuel_note_threshold
      [of BASELINE "(DailyEntry ''2026-01-01'' 180)\<lparr>cardio_min := Some 46\<rparr>" 60]
    cardio_fuel_note_threshold
      [of "BASELINE\<lparr>cardio_fuel := (cardio_fuel BASELINE)\<lparr>preferred_source := ''oats_g''\<rparr>\<rparr>"
          "(DailyEntry ''2026-01-01'' 180)\<lparr>cardio_min := Some 46\<rparr>" 60]
  by (simp add: BASELINE_def DailyEntry_def)

end
